theory Spec2Isabelle
  imports Main "HOL-Library.Word"
begin

section \<open>The denoising script \<^verbatim>\<open>scripts/TP1/denoise_image.py\<close>\<close>

text \<open>
  The script parses its command line, loads a NIfTI volume, reorients it, applies one of
  five filters chosen by an integer, prints the elapsed time, computes the residual,
  displays both volumes and saves both. The loader, the reorientation, the filters, the
  viewer and the writer live in the modules \<^verbatim>\<open>tools.io\<close>, \<^verbatim>\<open>tools.denoise\<close> and
  \<^verbatim>\<open>tools.display\<close>; \<^verbatim>\<open>main\<close> only calls them. They are parameters of the model
  below (the record \<open>tools\<close>): each takes its arguments and the state of the outside
  world and returns either the exception it raises or its result, together with the new
  state of the world.
\<close>

subsection \<open>Values\<close>

text \<open>
  A Python float is kept as its IEEE-754 bit pattern. The script does no arithmetic on
  floats of its own except the array subtraction of line 158, whose elementwise
  operation is numpy's and is a parameter (\<open>np_sub\<close>).
\<close>

type_synonym pyfloat = "64 word"

datatype pyval = PyInt int | PyFloat pyfloat | PyNone

text \<open>A numpy array: its shape and its elements in row-major order.\<close>

record ndarray =
  shape :: "nat list"
  elems :: "pyfloat list"

text \<open>
  What \<^verbatim>\<open>main\<close> reads from a loaded image: \<^verbatim>\<open>image.affine\<close> (a 4x4 matrix) and
  \<^verbatim>\<open>image.header.get_zooms()\<close>; the voxel data are reached only through
  \<^verbatim>\<open>reorient_data_rsa\<close>.
\<close>

record image =
  img_affine :: "pyfloat list list"
  img_zooms :: "pyfloat list"
  img_dataobj :: ndarray

datatype error =
  UnboundLocalError string
  | ValueError string
  | Raised string

subsection \<open>The command line\<close>

text \<open>
  \<open>cli\<close> is the command line after argparse has split it and applied each
  \<^verbatim>\<open>type=\<close> conversion: the two positionals, and for each flag \<open>None\<close> when it was
  not given. \<open>args\<close> is the namespace \<^verbatim>\<open>parse_args\<close> returns.
\<close>

record cli =
  cli_in_image :: string
  cli_denoise_method :: int
  cli_output_dir :: "string option"
  cli_axe :: "int option"
  cli_sigma :: "pyfloat option"
  cli_patch_size :: "int option"
  cli_patch_distance :: "int option"
  cli_h :: "int option"
  cli_sigma_color :: "pyfloat option"
  cli_sigma_spatial :: "pyfloat option"
  cli_n :: "int option"
  cli_kappa :: "pyfloat option"
  cli_gamma :: "pyfloat option"

record args =
  args_in_image :: string
  args_denoise_method :: int
  args_output_dir :: string
  args_axe :: int
  args_sigma :: pyval
  args_patch_size :: int
  args_patch_distance :: int
  args_h :: int
  args_sigma_color :: pyval
  args_sigma_spatial :: pyval
  args_n :: int
  args_kappa :: pyval
  args_gamma :: pyval

text \<open>The double nearest to 0.1, the default of \<^verbatim>\<open>--gamma\<close>.\<close>

definition float_0_1 :: pyfloat where
  "float_0_1 = 0x3FB999999999999A"

text \<open>
  \<^verbatim>\<open>_build_arg_parser\<close> followed by \<^verbatim>\<open>parse_args\<close>, lines 73 to 105. argparse
  converts only what the user typed: a default that is not a string is stored as written,
  so the defaults of \<^verbatim>\<open>--sigma\<close>, \<^verbatim>\<open>--sigma_spatial\<close> and \<^verbatim>\<open>--kappa\<close> are the
  integers 1, 1 and 50, and the default of \<^verbatim>\<open>--sigma_color\<close> is \<^verbatim>\<open>None\<close>.
\<close>

definition opt_float :: "pyval \<Rightarrow> pyfloat option \<Rightarrow> pyval" where
  "opt_float d v = (case v of None \<Rightarrow> d | Some x \<Rightarrow> PyFloat x)"

definition opt_default :: "'a \<Rightarrow> 'a option \<Rightarrow> 'a" where
  "opt_default d v = (case v of None \<Rightarrow> d | Some x \<Rightarrow> x)"

definition build_arg_parser :: "cli \<Rightarrow> args" where
  "build_arg_parser c =
     \<lparr> args_in_image = cli_in_image c,
       args_denoise_method = cli_denoise_method c,
       args_output_dir = opt_default ''.'' (cli_output_dir c),
       args_axe = opt_default 0 (cli_axe c),
       args_sigma = opt_float (PyInt 1) (cli_sigma c),
       args_patch_size = opt_default 5 (cli_patch_size c),
       args_patch_distance = opt_default 5 (cli_patch_distance c),
       args_h = opt_default 30 (cli_h c),
       args_sigma_color = opt_float PyNone (cli_sigma_color c),
       args_sigma_spatial = opt_float (PyInt 1) (cli_sigma_spatial c),
       args_n = opt_default 10 (cli_n c),
       args_kappa = opt_float (PyInt 50) (cli_kappa c),
       args_gamma = opt_float (PyFloat float_0_1) (cli_gamma c) \<rparr>"

subsection \<open>The helper modules\<close>

type_synonym ('w, 'a) ext = "'w \<Rightarrow> (error + 'a) \<times> 'w"

text \<open>
  \<open>check_valid_image\<close> returns \<open>None\<close> when the Python function returns a value that
  the test \<^verbatim>\<open>if image:\<close> of line 123 takes as false. Arrays and images are values
  here: a helper does not change in place an object it was given (the specification calls
  the reorientation pure, and the affine and the voxel sizes immutable).
\<close>

record 'w tools =
  check_valid_image :: "string \<Rightarrow> ('w, image option) ext"
  reorient_data_rsa :: "image \<Rightarrow> ('w, ndarray) ext"
  denoise_non_local_means :: "ndarray \<Rightarrow> int \<Rightarrow> int \<Rightarrow> int \<Rightarrow> ('w, ndarray) ext"
  denoise_gaussian :: "ndarray \<Rightarrow> pyval \<Rightarrow> ('w, ndarray) ext"
  denoise_median :: "ndarray \<Rightarrow> int \<Rightarrow> ('w, ndarray) ext"
  denoise_bilateral :: "ndarray \<Rightarrow> int \<Rightarrow> pyval \<Rightarrow> pyval \<Rightarrow> ('w, ndarray) ext"
  denoise_anisotropic_diffusion :: "ndarray \<Rightarrow> int \<Rightarrow> pyval \<Rightarrow> pyval \<Rightarrow> ('w, ndarray) ext"
  display_image :: "ndarray \<Rightarrow> pyfloat list \<Rightarrow> int \<Rightarrow> ('w, unit) ext"
  save_nifti_image ::
    "ndarray \<Rightarrow> pyfloat list list \<Rightarrow> string \<Rightarrow> string \<Rightarrow> pyval list \<Rightarrow> string \<Rightarrow> bool
      \<Rightarrow> ('w, unit) ext"
  np_sub :: "pyfloat \<Rightarrow> pyfloat \<Rightarrow> pyfloat"

subsection \<open>The trace of a run\<close>

text \<open>
  Every call \<^verbatim>\<open>main\<close> makes is logged with its arguments and with what came back, in
  the order of the calls. \<open>Subtract\<close> is the expression \<^verbatim>\<open>data - denoised_image\<close> and
  \<open>PrintTiming\<close> the \<^verbatim>\<open>print\<close> of line 155 (the elapsed time it shows is left out).
\<close>

datatype call =
  CheckValidImage string
  | ReorientDataRsa image
  | DenoiseNonLocalMeans ndarray int int int
  | DenoiseGaussian ndarray pyval
  | DenoiseMedian ndarray int
  | DenoiseBilateral ndarray int pyval pyval
  | DenoiseAnisotropicDiffusion ndarray int pyval pyval
  | PrintTiming string
  | Subtract ndarray ndarray
  | DisplayImage ndarray "pyfloat list" int
  | SaveNiftiImage ndarray "pyfloat list list" string string "pyval list" string bool

datatype retval = RNone | RImage "image option" | RArray ndarray

type_synonym event = "call \<times> (error + retval)"

type_synonym ('w, 'a) prog = "'w \<times> event list \<Rightarrow> (error + 'a) \<times> 'w \<times> event list"

definition ret :: "'a \<Rightarrow> ('w, 'a) prog" where
  "ret x = (\<lambda>(w, tr). (Inr x, w, tr))"

text \<open>
  \<open>invoke c wrap f k\<close>: make the call \<open>f\<close>, log it as \<open>c\<close>; if it raises, the exception
  leaves \<^verbatim>\<open>main\<close> (which has no \<^verbatim>\<open>try\<close>), otherwise go on with \<open>k\<close>.
\<close>

definition invoke ::
  "call \<Rightarrow> ('a \<Rightarrow> retval) \<Rightarrow> ('w, 'a) ext \<Rightarrow> ('a \<Rightarrow> ('w, 'b) prog) \<Rightarrow> ('w, 'b) prog" where
  "invoke c wrap f k =
     (\<lambda>(w, tr). case f w of
        (Inl e, w') \<Rightarrow> (Inl e, w', tr @ [(c, Inl e)])
      | (Inr x, w') \<Rightarrow> k x (w', tr @ [(c, Inr (wrap x))]))"

subsection \<open>numpy's subtraction\<close>

text \<open>
  \<^verbatim>\<open>a - b\<close> on arrays: the shapes are aligned from the right, two sizes agree when they
  are equal or one of them is 1, and the result has the larger size in each place;
  otherwise numpy raises \<^verbatim>\<open>ValueError\<close>.
\<close>

definition broadcast_dim :: "nat \<Rightarrow> nat \<Rightarrow> nat option" where
  "broadcast_dim a b =
     (if a = b then Some a else if a = 1 then Some b else if b = 1 then Some a else None)"

fun broadcast_rev :: "nat list \<Rightarrow> nat list \<Rightarrow> nat list option" where
  "broadcast_rev [] ys = Some ys"
| "broadcast_rev (x # xs) [] = Some (x # xs)"
| "broadcast_rev (x # xs) (y # ys) =
     (case broadcast_dim x y of
        None \<Rightarrow> None
      | Some d \<Rightarrow> (case broadcast_rev xs ys of None \<Rightarrow> None | Some ds \<Rightarrow> Some (d # ds)))"

definition broadcast_shapes :: "nat list \<Rightarrow> nat list \<Rightarrow> nat list option" where
  "broadcast_shapes s t = map_option rev (broadcast_rev (rev s) (rev t))"

fun indices :: "nat list \<Rightarrow> nat list list" where
  "indices [] = [[]]"
| "indices (d # ds) = concat (map (\<lambda>i. map ((#) i) (indices ds)) [0..<d])"

fun offset :: "nat list \<Rightarrow> nat list \<Rightarrow> nat" where
  "offset (d # ds) (i # js) = (if d = 1 then 0 else i) * prod_list ds + offset ds js"
| "offset _ _ = 0"

definition item :: "ndarray \<Rightarrow> nat list \<Rightarrow> pyfloat" where
  "item a idx = elems a ! offset (shape a) (drop (length idx - length (shape a)) idx)"

definition subtract :: "(pyfloat \<Rightarrow> pyfloat \<Rightarrow> pyfloat) \<Rightarrow> ndarray \<Rightarrow> ndarray \<Rightarrow> error + ndarray" where
  "subtract sub a b =
     (case broadcast_shapes (shape a) (shape b) of
        None \<Rightarrow> Inl (ValueError ''operands could not be broadcast together'')
      | Some r \<Rightarrow> Inr \<lparr> shape = r, elems = map (\<lambda>idx. sub (item a idx) (item b idx)) (indices r) \<rparr>)"

subsection \<open>\<^verbatim>\<open>main\<close>\<close>

text \<open>
  The local variables the \<^verbatim>\<open>if\<close>/\<^verbatim>\<open>elif\<close> chain of lines 133 to 152 assigns.
  \<open>denoised_image\<close> is \<open>None\<close> while the Python variable is unbound.
\<close>

record locals =
  denoised_image :: "ndarray option"
  method_name :: string
  parameters :: "pyval list"

text \<open>Lines 128 to 152: the initial values and the chain, which has no \<^verbatim>\<open>else\<close>.\<close>

definition dispatch :: "'w tools \<Rightarrow> args \<Rightarrow> ndarray \<Rightarrow> (locals \<Rightarrow> ('w, 'b) prog) \<Rightarrow> ('w, 'b) prog" where
  "dispatch T a data k =
     (if args_denoise_method a = 0 then
        invoke (DenoiseNonLocalMeans data (args_h a) (args_patch_size a) (args_patch_distance a)) RArray
          (denoise_non_local_means T data (args_h a) (args_patch_size a) (args_patch_distance a))
          (\<lambda>d. k \<lparr> denoised_image = Some d, method_name = ''nl_means'',
                   parameters = [PyInt (args_h a), PyInt (args_patch_size a),
                                 PyInt (args_patch_distance a)] \<rparr>)
      else if args_denoise_method a = 1 then
        invoke (DenoiseGaussian data (args_sigma a)) RArray
          (denoise_gaussian T data (args_sigma a))
          (\<lambda>d. k \<lparr> denoised_image = Some d, method_name = ''gaussian'',
                   parameters = [args_sigma a] \<rparr>)
      else if args_denoise_method a = 3 then
        invoke (DenoiseMedian data (args_patch_size a)) RArray
          (denoise_median T data (args_patch_size a))
          (\<lambda>d. k \<lparr> denoised_image = Some d, method_name = ''median'',
                   parameters = [PyInt (args_patch_size a)] \<rparr>)
      else if args_denoise_method a = 4 then
        invoke (DenoiseBilateral data (args_patch_size a) (args_sigma_color a) (args_sigma_spatial a)) RArray
          (denoise_bilateral T data (args_patch_size a) (args_sigma_color a) (args_sigma_spatial a))
          (\<lambda>d. k \<lparr> denoised_image = Some d, method_name = ''bilateral'',
                   parameters = [PyInt (args_patch_size a), args_sigma_color a,
                                 args_sigma_spatial a] \<rparr>)
      else if args_denoise_method a = 5 then
        invoke (DenoiseAnisotropicDiffusion data (args_n a) (args_kappa a) (args_gamma a)) RArray
          (denoise_anisotropic_diffusion T data (args_n a) (args_kappa a) (args_gamma a))
          (\<lambda>d. k \<lparr> denoised_image = Some d, method_name = ''anisotropic_diffusion'',
                   parameters = [PyInt (args_n a), args_kappa a, args_gamma a] \<rparr>)
      else k \<lparr> denoised_image = None, method_name = '''', parameters = [] \<rparr>)"

text \<open>Line 158. Reading the unbound \<^verbatim>\<open>denoised_image\<close> raises \<^verbatim>\<open>UnboundLocalError\<close>.\<close>

definition residual ::
  "'w tools \<Rightarrow> ndarray \<Rightarrow> ndarray option \<Rightarrow> (ndarray \<Rightarrow> ndarray \<Rightarrow> ('w, 'b) prog) \<Rightarrow> ('w, 'b) prog" where
  "residual T data den k =
     (case den of
        None \<Rightarrow> (\<lambda>(w, tr). (Inl (UnboundLocalError ''denoised_image''), w, tr))
      | Some d \<Rightarrow> invoke (Subtract data d) RArray (\<lambda>w. (subtract (np_sub T) data d, w)) (k d))"

text \<open>Lines 154 to 167.\<close>

definition finish ::
  "'w tools \<Rightarrow> args \<Rightarrow> image \<Rightarrow> ndarray \<Rightarrow> locals \<Rightarrow> ('w, unit) prog" where
  "finish T a img data l =
     (let affine = img_affine img; voxel_sizes = img_zooms img in
      invoke (PrintTiming (method_name l)) (\<lambda>_. RNone) (\<lambda>w. (Inr (), w)) (\<lambda>_.
      residual T data (denoised_image l) (\<lambda>den res.
      invoke (DisplayImage den voxel_sizes (args_axe a)) (\<lambda>_. RNone)
        (display_image T den voxel_sizes (args_axe a)) (\<lambda>_.
      invoke (DisplayImage res voxel_sizes (args_axe a)) (\<lambda>_. RNone)
        (display_image T res voxel_sizes (args_axe a)) (\<lambda>_.
      invoke (SaveNiftiImage den affine (args_in_image a) (method_name l) (parameters l)
                (args_output_dir a) False) (\<lambda>_. RNone)
        (save_nifti_image T den affine (args_in_image a) (method_name l) (parameters l)
                (args_output_dir a) False) (\<lambda>_.
      invoke (SaveNiftiImage res affine (args_in_image a) (method_name l) (parameters l)
                (args_output_dir a) True) (\<lambda>_. RNone)
        (save_nifti_image T res affine (args_in_image a) (method_name l) (parameters l)
                (args_output_dir a) True) (\<lambda>_.
      ret ())))))))"

text \<open>Lines 103 to 167.\<close>

definition main :: "'w tools \<Rightarrow> cli \<Rightarrow> 'w \<Rightarrow> (error + unit) \<times> 'w \<times> event list" where
  "main T c w =
     (let a = build_arg_parser c in
      invoke (CheckValidImage (args_in_image a)) RImage (check_valid_image T (args_in_image a))
        (\<lambda>image. case image of
           None \<Rightarrow> ret ()
         | Some img \<Rightarrow>
             invoke (ReorientDataRsa img) RArray (reorient_data_rsa T img)
               (\<lambda>data. dispatch T a data (finish T a img data)))
        (w, []))"

text \<open>
  Lines 170 and 171: the interpreter ends with status 0 when \<^verbatim>\<open>main\<close> returns and with
  status 1 when an exception leaves it.
\<close>

definition exit_status :: "(error + unit) \<times> 'w \<times> event list \<Rightarrow> nat" where
  "exit_status r = (case fst r of Inl _ \<Rightarrow> 1 | Inr _ \<Rightarrow> 0)"

subsection \<open>Reading a trace\<close>

definition is_denoise :: "call \<Rightarrow> bool" where
  "is_denoise c =
     (case c of
        DenoiseNonLocalMeans _ _ _ _ \<Rightarrow> True
      | DenoiseGaussian _ _ \<Rightarrow> True
      | DenoiseMedian _ _ \<Rightarrow> True
      | DenoiseBilateral _ _ _ _ \<Rightarrow> True
      | DenoiseAnisotropicDiffusion _ _ _ _ \<Rightarrow> True
      | _ \<Rightarrow> False)"

definition is_display :: "call \<Rightarrow> bool" where
  "is_display c = (case c of DisplayImage _ _ _ \<Rightarrow> True | _ \<Rightarrow> False)"

definition is_save :: "call \<Rightarrow> bool" where
  "is_save c = (case c of SaveNiftiImage _ _ _ _ _ _ _ \<Rightarrow> True | _ \<Rightarrow> False)"

text \<open>The array a filter was called on.\<close>

definition denoise_input :: "call \<Rightarrow> ndarray option" where
  "denoise_input c =
     (case c of
        DenoiseNonLocalMeans d _ _ _ \<Rightarrow> Some d
      | DenoiseGaussian d _ \<Rightarrow> Some d
      | DenoiseMedian d _ \<Rightarrow> Some d
      | DenoiseBilateral d _ _ _ \<Rightarrow> Some d
      | DenoiseAnisotropicDiffusion d _ _ _ \<Rightarrow> Some d
      | _ \<Rightarrow> None)"

text \<open>The stages of the specification; the timing line belongs to none of them.\<close>

datatype stage = Load | Normalize | Denoise | Residual | Display | Write

definition stage_of :: "call \<Rightarrow> stage option" where
  "stage_of c =
     (case c of
        CheckValidImage _ \<Rightarrow> Some Load
      | ReorientDataRsa _ \<Rightarrow> Some Normalize
      | PrintTiming _ \<Rightarrow> None
      | Subtract _ _ \<Rightarrow> Some Residual
      | DisplayImage _ _ _ \<Rightarrow> Some Display
      | SaveNiftiImage _ _ _ _ _ _ _ \<Rightarrow> Some Write
      | _ \<Rightarrow> Some Denoise)"

definition stages :: "event list \<Rightarrow> stage list" where
  "stages tr = List.map_filter (\<lambda>ev. stage_of (fst ev)) tr"

subsection \<open>A sample run\<close>

text \<open>
  A volume of two voxels with spacing 2 and helpers that all succeed: the loader returns
  the volume, the reorientation flips its last axis, every filter returns the array it
  was given, the viewer and the writer return. The only differences taken in these
  runs are of a finite number with itself, which is +0.0.
\<close>

definition float_0 :: pyfloat where
  "float_0 = 0"

definition float_1 :: pyfloat where
  "float_1 = 0x3FF0000000000000"

definition float_2 :: pyfloat where
  "float_2 = 0x4000000000000000"

definition sample_data :: ndarray where
  "sample_data = \<lparr> shape = [1, 1, 2], elems = [float_1, float_2] \<rparr>"

definition sample_image :: image where
  "sample_image =
     \<lparr> img_affine = [[float_2, float_0, float_0, float_0], [float_0, float_2, float_0, float_0],
                      [float_0, float_0, float_2, float_0], [float_0, float_0, float_0, float_1]],
       img_zooms = [float_2, float_2, float_2],
       img_dataobj = sample_data \<rparr>"

definition flip :: "ndarray \<Rightarrow> ndarray" where
  "flip d = \<lparr> shape = shape d, elems = rev (elems d) \<rparr>"

definition sample_tools :: "unit tools" where
  "sample_tools =
     \<lparr> check_valid_image = (\<lambda>p w. (Inr (Some sample_image), w)),
       reorient_data_rsa = (\<lambda>img w. (Inr (flip (img_dataobj img)), w)),
       denoise_non_local_means = (\<lambda>data h ps pd w. (Inr data, w)),
       denoise_gaussian = (\<lambda>data s w. (Inr data, w)),
       denoise_median = (\<lambda>data ps w. (Inr data, w)),
       denoise_bilateral = (\<lambda>data ps sc ss w. (Inr data, w)),
       denoise_anisotropic_diffusion = (\<lambda>data n k g w. (Inr data, w)),
       display_image = (\<lambda>a z x w. (Inr (), w)),
       save_nifti_image = (\<lambda>a aff p m ps od rs w. (Inr (), w)),
       np_sub = (\<lambda>x y. float_0) \<rparr>"

text \<open>The command line \<^verbatim>\<open>denoise_image.py in.nii m\<close>, with no flag.\<close>

definition sample_cli :: "int \<Rightarrow> cli" where
  "sample_cli m =
     \<lparr> cli_in_image = ''in.nii'', cli_denoise_method = m, cli_output_dir = None,
       cli_axe = None, cli_sigma = None, cli_patch_size = None, cli_patch_distance = None,
       cli_h = None, cli_sigma_color = None, cli_sigma_spatial = None, cli_n = None,
       cli_kappa = None, cli_gamma = None \<rparr>"

text \<open>The same helpers, except that the loader returns a false value.\<close>

definition tools_no_image :: "unit tools" where
  "tools_no_image = sample_tools \<lparr> check_valid_image := (\<lambda>p w. (Inr None, w)) \<rparr>"

text \<open>The same helpers, except that the loader raises.\<close>

definition tools_bad_image :: "unit tools" where
  "tools_bad_image =
     sample_tools \<lparr> check_valid_image := (\<lambda>p w. (Inl (Raised ''InvalidImageError''), w)) \<rparr>"

text \<open>The same helpers, except that the viewer raises (no display backend).\<close>

definition tools_no_display :: "unit tools" where
  "tools_no_display =
     sample_tools \<lparr> display_image := (\<lambda>a z x w. (Inl (Raised ''no display''), w)) \<rparr>"

subsection \<open>The contract of the filters\<close>

text \<open>The array handed to the viewer or to the writer.\<close>

definition array_of :: "call \<Rightarrow> ndarray option" where
  "array_of c =
     (case c of
        DisplayImage a _ _ \<Rightarrow> Some a
      | SaveNiftiImage a _ _ _ _ _ _ \<Rightarrow> Some a
      | _ \<Rightarrow> None)"

text \<open>
  Modelled from the spec: the filters of \<^verbatim>\<open>tools.denoise\<close>, which are not among the
  sources. Section 4.3 of the specification says that the dispatcher returns a denoised
  array of identical shape; \<open>kept_shape\<close> says so of one logged call: if it is a filter
  call that returned an array, that array has the shape of the array the filter was
  given.
\<close>

definition kept_shape :: "event \<Rightarrow> bool" where
  "kept_shape ev =
     (case (denoise_input (fst ev), snd ev) of
        (Some d, Inr (RArray out)) \<Rightarrow> shape out = shape d
      | _ \<Rightarrow> True)"

subsection \<open>Arithmetic of float64\<close>

text \<open>
  numpy's \<^verbatim>\<open>+\<close> and \<^verbatim>\<open>-\<close> on float64 arrays are the IEEE-754 binary64 addition and
  subtraction, rounding to nearest with ties to even. A finite float with biased
  exponent \<open>e\<close> and fraction \<open>f\<close> is the integer \<open>fmant\<close> (the fraction, with the
  hidden bit when \<open>e\<close> is not 0, and the sign) times 2 to the power \<open>flevel - 1075\<close>. A sum is
  formed exactly at the lower of the two levels, then halved until it fits 53 bits,
  rounded, and packed again. Infinities and NaN follow the standard; the payload of a
  NaN result is not modelled (every NaN result is the default quiet NaN).
\<close>






















subsection \<open>A run in float64\<close>








section \<open>Properties\<close>

lemmas run_defs =
  main_def Let_def invoke_def ret_def dispatch_def finish_def residual_def build_arg_parser_def

lemmas sample_defs =
  sample_tools_def sample_cli_def sample_image_def sample_data_def flip_def
  opt_default_def opt_float_def subtract_def broadcast_shapes_def broadcast_dim_def item_def

lemmas trace_defs =
  is_denoise_def is_display_def is_save_def denoise_input_def stage_of_def stages_def
  List.map_filter_def

subsection \<open>A method id the chain does not handle\<close>

text \<open>
  C1. The claim asks that a method id outside 0, 1, 3, 4, 5 raises
  \<^verbatim>\<open>UnsupportedMethodError\<close>. The chain of lines 133 to 152 has no \<^verbatim>\<open>else\<close>: for
  such an id (2 among them, which the docstring and the help text give as anisotropic
  diffusion) no filter is called, the timing line is printed with an empty method name,
  and line 158 reads the unbound variable \<^verbatim>\<open>denoised_image\<close>, which raises
  \<^verbatim>\<open>UnboundLocalError\<close>. Nothing is displayed or written.
\<close>

theorem main_unmapped_method:
  assumes "cli_denoise_method c \<notin> {0, 1, 3, 4, 5}"
    and "check_valid_image T (cli_in_image c) w = (Inr (Some img), w1)"
    and "reorient_data_rsa T img w1 = (Inr data, w2)"
  shows "main T c w =
     (Inl (UnboundLocalError ''denoised_image''), w2,
      [(CheckValidImage (cli_in_image c), Inr (RImage (Some img))),
       (ReorientDataRsa img, Inr (RArray data)),
       (PrintTiming '''', Inr RNone)])"
  using assms by (simp add: run_defs)

theorem main_unmapped_method_witness:
  "main sample_tools (sample_cli 2) () =
     (Inl (UnboundLocalError ''denoised_image''), (),
      [(CheckValidImage ''in.nii'', Inr (RImage (Some sample_image))),
       (ReorientDataRsa sample_image, Inr (RArray (flip sample_data))),
       (PrintTiming '''', Inr RNone)])"
  using main_unmapped_method
    [of "sample_cli 2" sample_tools "()" sample_image "()" "flip sample_data" "()"]
  by (simp add: sample_tools_def sample_cli_def sample_image_def)

lemma upt_0_2: "[0..<2] = [0, 1]"
  by (simp add: numeral_2_eq_2)

lemmas eval_defs = run_defs sample_defs upt_0_2

lemmas run_splits = prod.splits sum.splits option.splits if_splits

subsection \<open>The exit status\<close>

text \<open>
  C4, as the claim states it, fails: when the loader returns a false value the test
  \<^verbatim>\<open>if image:\<close> of line 123 skips the whole body, \<^verbatim>\<open>main\<close> returns, and the
  process ends with status 0.
\<close>

theorem load_failure_exit_zero:
  "check_valid_image tools_no_image (cli_in_image (sample_cli 1)) () = (Inr None, ())
   \<and> exit_status (main tools_no_image (sample_cli 1) ()) = 0"
  by (simp add: run_defs sample_defs tools_no_image_def exit_status_def)

text \<open>
  C4, amended. When the loader returns a false value, no further call is made and the
  process ends with status 0. When the loader raises, the exception leaves \<^verbatim>\<open>main\<close>
  and the process ends with status 1. When the residual volume has been written, the
  last call of \<^verbatim>\<open>main\<close>, the process ends with status 0.
\<close>

theorem exit_status_by_load:
  assumes "main T c w = (r, w', tr)"
    and "check_valid_image T (cli_in_image c) w = (ld, w1)"
  shows "(ld = Inr None \<longrightarrow>
            r = Inr () \<and> tr = [(CheckValidImage (cli_in_image c), Inr (RImage None))]
            \<and> exit_status (main T c w) = 0)
       \<and> (\<forall>e. ld = Inl e \<longrightarrow>
            r = Inl e \<and> tr = [(CheckValidImage (cli_in_image c), Inl e)]
            \<and> exit_status (main T c w) = 1)
       \<and> ((\<exists>a aff p m ps od. (SaveNiftiImage a aff p m ps od True, Inr RNone) \<in> set tr) \<longrightarrow>
            r = Inr () \<and> exit_status (main T c w) = 0)"
  using assms
  by (auto simp: run_defs exit_status_def split: run_splits)

theorem exit_status_by_load_witness:
  "exit_status (main tools_no_image (sample_cli 1) ()) = 0
   \<and> exit_status (main tools_bad_image (sample_cli 1) ()) = 1
   \<and> exit_status (main sample_tools (sample_cli 1) ()) = 0"
proof -
  obtain r1 w1 t1 where m1: "main tools_no_image (sample_cli 1) () = (r1, w1, t1)"
    by (cases "main tools_no_image (sample_cli 1) ()") auto
  have l1: "check_valid_image tools_no_image (cli_in_image (sample_cli 1)) () = (Inr None, ())"
    by (simp add: tools_no_image_def sample_tools_def)
  obtain r2 w2 t2 where m2: "main tools_bad_image (sample_cli 1) () = (r2, w2, t2)"
    by (cases "main tools_bad_image (sample_cli 1) ()") auto
  have l2: "check_valid_image tools_bad_image (cli_in_image (sample_cli 1)) ()
      = (Inl (Raised ''InvalidImageError''), ())"
    by (simp add: tools_bad_image_def sample_tools_def)
  obtain r3 w3 t3 where m3: "main sample_tools (sample_cli 1) () = (r3, w3, t3)"
    by (cases "main sample_tools (sample_cli 1) ()") auto
  have l3: "check_valid_image sample_tools (cli_in_image (sample_cli 1)) ()
      = (Inr (Some sample_image), ())"
    by (simp add: sample_tools_def)
  have s3: "\<exists>a aff p m ps od. (SaveNiftiImage a aff p m ps od True, Inr RNone) \<in> set t3"
    using m3 by (auto simp: eval_defs)
  show ?thesis
    using exit_status_by_load [OF m1 l1] exit_status_by_load [OF m2 l2]
      exit_status_by_load [OF m3 l3] s3
    by blast
qed

subsection \<open>A failing display\<close>

text \<open>
  C5, as the claim states it, fails: \<^verbatim>\<open>main\<close> has no \<^verbatim>\<open>try\<close>, so when the viewer
  raises, the run ends there and nothing is written.
\<close>

theorem display_failure_no_write:
  "main tools_no_display (sample_cli 1) () =
     (Inl (Raised ''no display''), (),
      [(CheckValidImage ''in.nii'', Inr (RImage (Some sample_image))),
       (ReorientDataRsa sample_image, Inr (RArray (flip sample_data))),
       (DenoiseGaussian (flip sample_data) (PyInt 1), Inr (RArray (flip sample_data))),
       (PrintTiming ''gaussian'', Inr RNone),
       (Subtract (flip sample_data) (flip sample_data),
          Inr (RArray \<lparr> shape = [1, 1, 2], elems = [float_0, float_0] \<rparr>)),
       (DisplayImage (flip sample_data) [float_2, float_2, float_2] 0, Inl (Raised ''no display''))])"
  by (simp add: eval_defs tools_no_display_def)

text \<open>
  C5, amended. An exception raised by a display call leaves \<^verbatim>\<open>main\<close>: it is the
  result of the run, the failed display is the last call made, and no volume is written.
  A volume is written only after both display calls have returned.
\<close>

theorem display_failure_aborts:
  assumes "main T c w = (r, w', tr)"
  shows "(\<forall>a z x e. (DisplayImage a z x, Inl e) \<in> set tr \<longrightarrow>
            r = Inl e \<and> last tr = (DisplayImage a z x, Inl e)
            \<and> filter (\<lambda>ev. is_save (fst ev)) tr = [])
       \<and> ((\<exists>ev \<in> set tr. is_save (fst ev)) \<longrightarrow>
            length (filter (\<lambda>ev. is_display (fst ev) \<and> snd ev = Inr RNone) tr) = 2)"
  using assms
  by (auto simp: run_defs is_save_def is_display_def split: run_splits)

theorem display_failure_aborts_witness:
  "fst (main tools_no_display (sample_cli 1) ()) = Inl (Raised ''no display'')
   \<and> filter (\<lambda>ev. is_save (fst ev)) (snd (snd (main tools_no_display (sample_cli 1) ()))) = []
   \<and> length (filter (\<lambda>ev. is_display (fst ev) \<and> snd ev = Inr RNone)
        (snd (snd (main sample_tools (sample_cli 1) ())))) = 2"
proof -
  obtain r1 w1 t1 where m1: "main tools_no_display (sample_cli 1) () = (r1, w1, t1)"
    by (cases "main tools_no_display (sample_cli 1) ()") auto
  have d1: "(DisplayImage (flip sample_data) [float_2, float_2, float_2] 0,
      Inl (Raised ''no display'')) \<in> set t1"
    using m1 by (auto simp: eval_defs tools_no_display_def)
  obtain r2 w2 t2 where m2: "main sample_tools (sample_cli 1) () = (r2, w2, t2)"
    by (cases "main sample_tools (sample_cli 1) ()") auto
  have s2: "\<exists>ev \<in> set t2. is_save (fst ev)"
    using m2 by (auto simp: eval_defs is_save_def)
  show ?thesis
    using display_failure_aborts [OF m1] display_failure_aborts [OF m2] d1 s2 m1 m2
    by auto
qed

subsection \<open>The dispatch\<close>





subsection \<open>The affine, the voxel sizes and the order of the stages\<close>

text \<open>
  C7. In a run that completes on a loaded image, the writer is called exactly twice,
  first for the denoised and then for the residual volume, both times with the affine of
  the image the loader returned; and every display call gets the voxel sizes of that
  image.
\<close>

theorem affine_and_zooms_reused:
  assumes "main T c w = (Inr (), w', tr)"
    and "(CheckValidImage p, Inr (RImage (Some img))) \<in> set tr"
  shows "(\<exists>den res m ps od.
            filter (\<lambda>ev. is_save (fst ev)) tr =
              [(SaveNiftiImage den (img_affine img) (cli_in_image c) m ps od False, Inr RNone),
               (SaveNiftiImage res (img_affine img) (cli_in_image c) m ps od True, Inr RNone)])
       \<and> (\<forall>a z x out. (DisplayImage a z x, out) \<in> set tr \<longrightarrow> z = img_zooms img)"
  using assms
  by (auto simp: run_defs is_save_def split: run_splits)

theorem affine_and_zooms_reused_witness:
  "filter (\<lambda>ev. is_save (fst ev)) (snd (snd (main sample_tools (sample_cli 3) ()))) =
     [(SaveNiftiImage (flip sample_data) (img_affine sample_image) ''in.nii'' ''median''
         [PyInt 5] ''.'' False, Inr RNone),
      (SaveNiftiImage \<lparr> shape = [1, 1, 2], elems = [float_0, float_0] \<rparr> (img_affine sample_image)
         ''in.nii'' ''median'' [PyInt 5] ''.'' True, Inr RNone)]"
proof -
  have m: "main sample_tools (sample_cli 3) () =
      (Inr (), (), snd (snd (main sample_tools (sample_cli 3) ())))"
    by (simp add: eval_defs)
  have e: "(CheckValidImage ''in.nii'', Inr (RImage (Some sample_image)))
      \<in> set (snd (snd (main sample_tools (sample_cli 3) ())))"
    by (simp add: eval_defs)
  from affine_and_zooms_reused [OF m e] show ?thesis
    by (simp add: eval_defs trace_defs)
qed



text \<open>
  C9. In a run that called a filter: the run began with the load and the reorientation
  of the loaded image, and the filter was called on the reoriented array; every array
  handed to the viewer or to the writer is what the filter returned or the difference of
  the reoriented array and it; and the writer gets the affine of the loaded image as it
  was read, whatever the reorientation did.
\<close>

theorem reoriented_arrays_original_affine:
  assumes "main T c w = (r, w', tr)"
    and "(cd, out) \<in> set tr"
    and "is_denoise cd"
  shows "\<exists>img data.
           take 2 tr = [(CheckValidImage (cli_in_image c), Inr (RImage (Some img))),
                        (ReorientDataRsa img, Inr (RArray data))]
         \<and> denoise_input cd = Some data
         \<and> (\<forall>a z x o1. (DisplayImage a z x, o1) \<in> set tr \<longrightarrow>
               (\<exists>den. out = Inr (RArray den) \<and> (a = den \<or> subtract (np_sub T) data den = Inr a)))
         \<and> (\<forall>a aff p m ps od rs o1. (SaveNiftiImage a aff p m ps od rs, o1) \<in> set tr \<longrightarrow>
               aff = img_affine img
               \<and> (\<exists>den. out = Inr (RArray den)
                    \<and> (if rs then subtract (np_sub T) data den = Inr a else a = den)))"
  using assms
  by (auto simp: run_defs is_denoise_def denoise_input_def split: run_splits)

theorem reoriented_arrays_original_affine_witness:
  "take 2 (snd (snd (main sample_tools (sample_cli 1) ()))) =
     [(CheckValidImage ''in.nii'', Inr (RImage (Some sample_image))),
      (ReorientDataRsa sample_image,
         Inr (RArray \<lparr> shape = [1, 1, 2], elems = [float_2, float_1] \<rparr>))]
   \<and> map fst (filter (\<lambda>ev. is_save (fst ev)) (snd (snd (main sample_tools (sample_cli 1) ())))) =
     [SaveNiftiImage \<lparr> shape = [1, 1, 2], elems = [float_2, float_1] \<rparr> (img_affine sample_image)
        ''in.nii'' ''gaussian'' [PyInt 1] ''.'' False,
      SaveNiftiImage \<lparr> shape = [1, 1, 2], elems = [float_0, float_0] \<rparr> (img_affine sample_image)
        ''in.nii'' ''gaussian'' [PyInt 1] ''.'' True]"
proof -
  obtain r w' tr where m: "main sample_tools (sample_cli 1) () = (r, w', tr)"
    by (cases "main sample_tools (sample_cli 1) ()") auto
  have e: "(DenoiseGaussian (flip sample_data) (PyInt 1), Inr (RArray (flip sample_data))) \<in> set tr"
    using m by (auto simp: eval_defs)
  have d: "is_denoise (DenoiseGaussian (flip sample_data) (PyInt 1))"
    by (simp add: is_denoise_def)
  note reoriented_arrays_original_affine [OF m e d]
  then show ?thesis
    using m by (auto simp: eval_defs trace_defs)
qed

subsection \<open>Facts about traces\<close>

lemma array_of_Some:
  "array_of c = Some a \<Longrightarrow> \<not> is_denoise c \<and> (\<forall>x y. c \<noteq> Subtract x y)"
  by (cases c) (simp_all add: array_of_def is_denoise_def)

lemma is_denoise_simps:
  "\<not> is_denoise (CheckValidImage p)" "\<not> is_denoise (ReorientDataRsa i)"
  "\<not> is_denoise (PrintTiming m)" "\<not> is_denoise (Subtract a b)"
  by (simp_all add: is_denoise_def)

lemma array_of_simps:
  "array_of (CheckValidImage p) = None" "array_of (ReorientDataRsa i) = None"
  "array_of (PrintTiming m) = None" "array_of (Subtract a b) = None"
  by (simp_all add: array_of_def)

lemma is_denoise_not_Subtract:
  "is_denoise c \<Longrightarrow> c \<noteq> Subtract a b" "is_denoise c \<Longrightarrow> Subtract a b \<noteq> c"
  by (auto simp: is_denoise_def)

lemma is_denoise_array_of: "is_denoise c \<Longrightarrow> array_of c = None"
  by (cases c) (simp_all add: array_of_def is_denoise_def)

lemma shapes_of_trace:
  assumes tr: "tr = (CheckValidImage p, o1) # (ReorientDataRsa img, o2) # (cd, Inr (RArray den))
             # (PrintTiming m, o3) # (Subtract data den, Inr (RArray res)) # rest"
    and isd: "is_denoise cd"
    and den: "shape den = shape data"
    and res: "shape res = shape data"
    and rest: "\<forall>ev \<in> set rest. array_of (fst ev) = Some den \<or> array_of (fst ev) = Some res"
  shows "(\<forall>cd den. (cd, Inr (RArray den)) \<in> set tr \<and> is_denoise cd \<longrightarrow> shape den = shape data)
       \<and> (\<forall>a b out. (Subtract a b, out) \<in> set tr \<longrightarrow>
             a = data \<and> shape b = shape data
             \<and> (\<exists>res. out = Inr (RArray res) \<and> shape res = shape data))
       \<and> (\<forall>ev \<in> set tr. \<forall>a. array_of (fst ev) = Some a \<longrightarrow> shape a = shape data)"
proof -
  have r0: "\<exists>x. array_of (fst ev) = Some x" if "ev \<in> set rest" for ev
    using rest that by blast
  have r1: "\<not> is_denoise (fst ev)" if "ev \<in> set rest" for ev
    using r0 [OF that] array_of_Some by blast
  have r2: "fst ev \<noteq> Subtract a b" if "ev \<in> set rest" for ev a b
    using r0 [OF that] array_of_Some by blast
  have r3: "shape x = shape data" if "ev \<in> set rest" "array_of (fst ev) = Some x" for ev x
  proof -
    from rest that(1) have "array_of (fst ev) = Some den \<or> array_of (fst ev) = Some res"
      by blast
    with that(2) have "x = den \<or> x = res"
      by auto
    with den res show ?thesis
      by auto
  qed
  have g1: "shape d' = shape data" if "(c', Inr (RArray d')) \<in> set tr" "is_denoise c'" for c' d'
  proof -
    from that(1) have "(c', Inr (RArray d')) \<in> set rest \<or> (c' = cd \<and> d' = den) \<or> \<not> is_denoise c'"
      unfolding tr by (auto simp: is_denoise_simps)
    with that(2) r1 [of "(c', Inr (RArray d'))"] den show ?thesis
      by auto
  qed
  have g2: "a = data \<and> shape b = shape data \<and> (\<exists>res. out = Inr (RArray res) \<and> shape res = shape data)"
    if "(Subtract a b, out) \<in> set tr" for a b out
  proof -
    from that have "(Subtract a b, out) \<in> set rest \<or> Subtract a b = cd
        \<or> (a = data \<and> b = den \<and> out = Inr (RArray res))"
      unfolding tr by auto
    with r2 [of "(Subtract a b, out)" a b] is_denoise_not_Subtract(2) [OF isd, of a b] den res
    show ?thesis
      by auto
  qed
  have g3: "shape a = shape data" if "ev \<in> set tr" "array_of (fst ev) = Some a" for ev a
  proof -
    from that(1) have "ev \<in> set rest \<or> array_of (fst ev) = None"
      unfolding tr by (auto simp: array_of_simps is_denoise_array_of [OF isd])
    with that(2) r3 [of ev a] show ?thesis
      by auto
  qed
  from g1 g2 g3 show ?thesis
    by blast
qed

lemma broadcast_rev_same: "broadcast_rev xs xs = Some xs"
  by (induction xs) (simp_all add: broadcast_dim_def)

lemma broadcast_shapes_same: "broadcast_shapes s s = Some s"
  by (simp add: broadcast_shapes_def broadcast_rev_same)

lemma subtract_same_shape:
  assumes "shape b = shape a"
  shows "\<exists>res. subtract f a b = Inr res \<and> shape res = shape a"
  using assms by (simp add: subtract_def broadcast_shapes_same)

lemma kept_shapeD:
  "kept_shape (cd, Inr (RArray den)) \<Longrightarrow> denoise_input cd = Some data \<Longrightarrow> shape den = shape data"
  by (simp add: kept_shape_def)

text \<open>The trace of a run that got past the reorientation, by how far it got.\<close>

lemma main_trace:
  assumes "main T c w = (r, w', tr)"
    and "(ReorientDataRsa img, Inr (RArray data)) \<in> set tr"
  shows "\<exists>post. tr = (CheckValidImage (cli_in_image c), Inr (RImage (Some img)))
                   # (ReorientDataRsa img, Inr (RArray data)) # post
          \<and> ((\<exists>cd e. post = [(cd, Inl e)] \<and> is_denoise cd)
             \<or> (\<exists>m. post = [(PrintTiming m, Inr RNone)])
             \<or> (\<exists>cd den m e. post = [(cd, Inr (RArray den)), (PrintTiming m, Inr RNone),
                                     (Subtract data den, Inl e)]
                   \<and> denoise_input cd = Some data
                   \<and> subtract (np_sub T) data den = Inl e)
             \<or> (\<exists>cd den m res rest.
                   post = (cd, Inr (RArray den)) # (PrintTiming m, Inr RNone)
                            # (Subtract data den, Inr (RArray res)) # rest
                   \<and> is_denoise cd \<and> denoise_input cd = Some data
                   \<and> subtract (np_sub T) data den = Inr res
                   \<and> (\<forall>ev \<in> set rest.
                         array_of (fst ev) = Some den \<or> array_of (fst ev) = Some res)))"
  using assms
  by (auto simp: run_defs is_denoise_def denoise_input_def array_of_def split: run_splits)

subsection \<open>Shapes\<close>

text \<open>
  C3. In a run in which every filter call that returned kept the shape of its input (the
  contract of section 4.3 of the specification; the filters themselves are not among the
  sources): the array the filter returned has the shape of the reoriented array, the
  subtraction of line 158 is of two arrays of that shape, does not raise and gives an
  array of that shape, and every array handed to the viewer or to the writer has that
  shape.
\<close>

theorem shapes_agree:
  assumes run: "main T c w = (r, w', tr)"
    and kept: "\<forall>ev \<in> set tr. kept_shape ev"
    and ro: "(ReorientDataRsa img, Inr (RArray data)) \<in> set tr"
  shows "(\<forall>cd den. (cd, Inr (RArray den)) \<in> set tr \<and> is_denoise cd \<longrightarrow> shape den = shape data)
       \<and> (\<forall>a b out. (Subtract a b, out) \<in> set tr \<longrightarrow>
             a = data \<and> shape b = shape data
             \<and> (\<exists>res. out = Inr (RArray res) \<and> shape res = shape data))
       \<and> (\<forall>ev \<in> set tr. \<forall>a. array_of (fst ev) = Some a \<longrightarrow> shape a = shape data)"
proof -
  let ?ck = "(CheckValidImage (cli_in_image c), Inr (RImage (Some img)))"
  let ?ro = "(ReorientDataRsa img, Inr (RArray data))"
  from main_trace [OF run ro] show ?thesis
  proof (elim disjE exE conjE)
    fix post cd e
    assume tr: "tr = ?ck # ?ro # post"
    assume "post = [(cd, Inl e)]" and "is_denoise cd"
    with tr show ?thesis
      by (simp add: is_denoise_simps array_of_simps is_denoise_array_of is_denoise_not_Subtract)
  next
    fix post m
    assume tr: "tr = ?ck # ?ro # post"
    assume "post = [(PrintTiming m, Inr RNone)]"
    with tr show ?thesis
      by (simp add: is_denoise_simps array_of_simps)
  next
    fix post cd den m e
    assume tr: "tr = ?ck # ?ro # post"
    assume p: "post = [(cd, Inr (RArray den)), (PrintTiming m, Inr RNone), (Subtract data den, Inl e)]"
      and cd: "denoise_input cd = Some data"
      and sub: "subtract (np_sub T) data den = Inl e"
    have "(cd, Inr (RArray den)) \<in> set tr"
      unfolding tr p by simp
    with kept have "kept_shape (cd, Inr (RArray den))"
      by blast
    then have "shape den = shape data"
      using cd by (rule kept_shapeD)
    from subtract_same_shape [OF this, of "np_sub T"] sub have False
      by simp
    then show ?thesis ..
  next
    fix post cd den m res rest
    assume tr: "tr = ?ck # ?ro # post"
    assume p: "post = (cd, Inr (RArray den)) # (PrintTiming m, Inr RNone)
                 # (Subtract data den, Inr (RArray res)) # rest"
      and isd: "is_denoise cd"
      and cd: "denoise_input cd = Some data"
      and sub: "subtract (np_sub T) data den = Inr res"
      and rest: "\<forall>ev \<in> set rest. array_of (fst ev) = Some den \<or> array_of (fst ev) = Some res"
    have "(cd, Inr (RArray den)) \<in> set tr"
      unfolding tr p by simp
    with kept have "kept_shape (cd, Inr (RArray den))"
      by blast
    then have den: "shape den = shape data"
      using cd by (rule kept_shapeD)
    from subtract_same_shape [OF den, of "np_sub T"] sub have res: "shape res = shape data"
      by simp
    have tr': "tr = ?ck # ?ro # (cd, Inr (RArray den)) # (PrintTiming m, Inr RNone)
                 # (Subtract data den, Inr (RArray res)) # rest"
      unfolding tr p ..
    from tr' isd den res rest show ?thesis
      by (rule shapes_of_trace)
  qed
qed

theorem shapes_agree_witness:
  "list_all kept_shape (snd (snd (main sample_tools (sample_cli 0) ())))
   \<and> list_all (\<lambda>ev. case array_of (fst ev) of None \<Rightarrow> True | Some a \<Rightarrow> shape a = [1, 1, 2])
        (snd (snd (main sample_tools (sample_cli 0) ())))
   \<and> length (filter (\<lambda>ev. array_of (fst ev) \<noteq> None)
        (snd (snd (main sample_tools (sample_cli 0) ())))) = 4"
proof -
  let ?tr = "snd (snd (main sample_tools (sample_cli 0) ()))"
  have m: "main sample_tools (sample_cli 0) () = (Inr (), (), ?tr)"
    by (simp add: eval_defs)
  have k: "\<forall>ev \<in> set ?tr. kept_shape ev"
    by (simp add: eval_defs kept_shape_def denoise_input_def)
  have e: "(ReorientDataRsa sample_image, Inr (RArray (flip sample_data))) \<in> set ?tr"
    by (simp add: eval_defs)
  have s: "shape (flip sample_data) = [1, 1, 2]"
    by (simp add: flip_def sample_data_def)
  from shapes_agree [OF m k e]
  have "\<forall>ev \<in> set ?tr. \<forall>a. array_of (fst ev) = Some a \<longrightarrow> shape a = shape (flip sample_data)"
    by (rule conjunct2 [THEN conjunct2])
  then have a: "list_all (\<lambda>ev. case array_of (fst ev) of None \<Rightarrow> True | Some a \<Rightarrow> shape a = [1, 1, 2]) ?tr"
    unfolding list_all_iff s by (simp split: option.split)
  have n: "length (filter (\<lambda>ev. array_of (fst ev) \<noteq> None) ?tr) = 4"
    by (simp add: eval_defs array_of_def)
  from k a n show ?thesis
    by (simp add: list_all_iff)
qed

subsection \<open>The residual\<close>
















end
